theory Spec2Isabelle
  imports Main
begin

section \<open>Host-runtime terms and the erl\_nif primitives used by re2\_nif.cpp\<close>

text \<open>
  The NIF receives and returns Erlang terms. A list is built from cons cells, so
  an improper list and a term that is no list at all are inputs of the loops
  that walk \<open>enif_get_list_cell\<close>. Characters are bytes (Latin-1), a
  binary is a byte string. \<open>Atom\<close> is an atom whose name Latin-1 encodes,
  with that name; \<open>WideAtom\<close> is an atom whose name holds a character beyond
  Latin-1, for which \<open>enif_get_atom_length\<close> and \<open>enif_get_atom\<close> fail
  under \<open>ERL_NIF_LATIN1\<close>. A compiled pattern travels as a resource term that
  holds the handle; \<open>Opaque\<close> stands for every other kind of term
  (floats, pids, references, resources of other types).
\<close>

type_synonym bytes = string

text \<open>
  A \<open>re2::StringPiece\<close> that the engine reports for a capture slot:
  \<open>NullPiece\<close> is the default-constructed piece (null data, size 0) of a
  group that did not take part in the match; \<open>Sub off len\<close> is a piece of
  \<open>len\<close> bytes that starts \<open>off\<close> bytes into the subject.
\<close>

datatype StringPiece = NullPiece | Sub nat nat

fun sp_size :: "StringPiece \<Rightarrow> nat" where
  "sp_size NullPiece = 0"
| "sp_size (Sub off len) = len"

fun sp_offset :: "StringPiece \<Rightarrow> nat" where
  "sp_offset NullPiece = 0"
| "sp_offset (Sub off len) = off"

definition sp_empty :: "StringPiece \<Rightarrow> bool" where
  "sp_empty p = (sp_size p = 0)"

fun sp_bytes :: "bytes \<Rightarrow> StringPiece \<Rightarrow> bytes" where
  "sp_bytes str NullPiece = []"
| "sp_bytes str (Sub off len) = take len (drop off str)"

text \<open>The engine's error codes (\<open>re2::RE2::ErrorCode\<close>); \<open>ErrorUnlisted\<close>
  is any value the switch of \<open>re2error\<close> does not name.\<close>

datatype ErrorCode =
    NoError | ErrorInternal | ErrorBadEscape | ErrorBadCharClass
  | ErrorBadCharRange | ErrorMissingBracket | ErrorMissingParen
  | ErrorTrailingBackslash | ErrorRepeatArgument | ErrorRepeatSize
  | ErrorRepeatOp | ErrorBadPerlOp | ErrorBadUTF8 | ErrorBadNamedCapture
  | ErrorPatternTooLarge | ErrorUnlisted

text \<open>
  The external engine object, as far as the NIF reads it. The matching and
  substitution algorithms are the engine's: they are parameters here.
  \<open>re_Match text startpos n\<close> is
  \<open>Match(text, startpos, text.size(), UNANCHORED, group, n)\<close>: \<open>None\<close>
  when it returns false, otherwise the slots it wrote.
  \<open>re_Replace\<close> returns the flag and the rewritten string,
  \<open>re_GlobalReplace\<close> the number of replacements and the rewritten string.
\<close>

record RE2 =
  re_ok :: bool
  re_error_code :: ErrorCode
  re_error :: string
  re_error_arg :: string
  re_NumberOfCapturingGroups :: int
  re_NamedCapturingGroups :: "string \<Rightarrow> int option"
  re_Match :: "bytes \<Rightarrow> int \<Rightarrow> int \<Rightarrow> StringPiece list option"
  re_Replace :: "bytes \<Rightarrow> bytes \<Rightarrow> bool \<times> bytes"
  re_GlobalReplace :: "bytes \<Rightarrow> bytes \<Rightarrow> int \<times> bytes"

text \<open>\<open>struct re2_handle\<close>: the pointer \<open>re\<close>, \<open>None\<close> for \<open>nullptr\<close>.\<close>

type_synonym re2_handle = "RE2 option"

datatype eterm =
    Atom string
  | WideAtom "nat list"
  | Integer int
  | Binary bytes
  | Tuple "eterm list"
  | ENil
  | ECons eterm eterm
  | Resource re2_handle
  | Opaque nat

text \<open>\<open>enif_make_list_from_array\<close>: a proper list of the given elements.\<close>

fun make_list :: "eterm list \<Rightarrow> eterm" where
  "make_list [] = ENil"
| "make_list (x # xs) = ECons x (make_list xs)"

definition enif_is_identical :: "eterm \<Rightarrow> eterm \<Rightarrow> bool" where
  "enif_is_identical a b = (a = b)"

fun enif_is_empty_list :: "eterm \<Rightarrow> bool" where
  "enif_is_empty_list ENil = True"
| "enif_is_empty_list _ = False"

fun enif_is_atom :: "eterm \<Rightarrow> bool" where
  "enif_is_atom (Atom a) = True"
| "enif_is_atom (WideAtom a) = True"
| "enif_is_atom _ = False"

fun enif_get_list_cell :: "eterm \<Rightarrow> (eterm \<times> eterm) option" where
  "enif_get_list_cell (ECons h t) = Some (h, t)"
| "enif_get_list_cell _ = None"

text \<open>\<open>enif_get_tuple\<close>: the arity and the elements.\<close>

fun enif_get_tuple :: "eterm \<Rightarrow> (int \<times> eterm list) option" where
  "enif_get_tuple (Tuple es) = Some (int (length es), es)"
| "enif_get_tuple _ = None"

text \<open>\<open>enif_get_int\<close> succeeds on an integer that fits the C \<open>int\<close> (32 bits).\<close>

fun enif_get_int :: "eterm \<Rightarrow> int option" where
  "enif_get_int (Integer i) = (if - 2147483648 \<le> i \<and> i \<le> 2147483647 then Some i else None)"
| "enif_get_int _ = None"

text \<open>Conversion of a size or pointer difference to the C \<open>int\<close>: it wraps.\<close>

definition c_int :: "int \<Rightarrow> int" where
  "c_int k = (k + 2147483648) mod 4294967296 - 2147483648"

text \<open>\<open>enif_get_list_length\<close>: the length of a proper list.\<close>

fun enif_get_list_length :: "eterm \<Rightarrow> nat option" where
  "enif_get_list_length ENil = Some 0"
| "enif_get_list_length (ECons h t) = map_option Suc (enif_get_list_length t)"
| "enif_get_list_length _ = None"

text \<open>\<open>enif_get_atom_length\<close> (Latin-1): it fails on a term that is no atom
  and on an atom that Latin-1 cannot encode.\<close>

fun enif_get_atom_length :: "eterm \<Rightarrow> nat option" where
  "enif_get_atom_length (Atom a) = Some (length a)"
| "enif_get_atom_length _ = None"

text \<open>
  \<open>enif_get_atom\<close> and \<open>enif_get_string\<close> write the NUL-terminated name
  into a buffer of \<open>size\<close> bytes: \<open>None\<close> is the return value 0 (or a
  negative one), \<open>Some buf\<close> the bytes written before the terminator.
\<close>

fun enif_get_atom :: "eterm \<Rightarrow> nat \<Rightarrow> bytes option" where
  "enif_get_atom (Atom a) sz = (if length a < sz then Some a else None)"
| "enif_get_atom _ sz = None"

fun latin1_chars :: "eterm \<Rightarrow> bytes option" where
  "latin1_chars ENil = Some []"
| "latin1_chars (ECons (Integer i) t) =
     (if 0 \<le> i \<and> i \<le> 255
      then map_option ((#) (char_of i)) (latin1_chars t) else None)"
| "latin1_chars _ = None"

definition enif_get_string :: "eterm \<Rightarrow> nat \<Rightarrow> bytes option" where
  "enif_get_string t sz =
     (case latin1_chars t of
        None \<Rightarrow> None
      | Some cs \<Rightarrow> if length cs < sz then Some cs else None)"

text \<open>A \<open>char*\<close> read as a C string ends at its first NUL byte.\<close>

definition c_str :: "bytes \<Rightarrow> string" where
  "c_str buf = takeWhile (\<lambda>c. c \<noteq> CHR 0x00) buf"

text \<open>\<open>enif_make_string\<close> (Latin-1) takes a \<open>char*\<close>: the list of the
  characters before the first NUL byte.\<close>

definition enif_make_string :: "bytes \<Rightarrow> eterm" where
  "enif_make_string buf = make_list (map (\<lambda>c. Integer (of_char c)) (c_str buf))"

text \<open>\<open>enif_inspect_iolist_as_binary\<close>: a binary, or a list of bytes, binaries
  and such lists, whose tail may be a binary.\<close>

fun enif_inspect_iolist_as_binary :: "eterm \<Rightarrow> bytes option" where
  "enif_inspect_iolist_as_binary (Binary b) = Some b"
| "enif_inspect_iolist_as_binary ENil = Some []"
| "enif_inspect_iolist_as_binary (ECons (Integer i) t) =
     (if 0 \<le> i \<and> i \<le> 255
      then map_option ((#) (char_of i)) (enif_inspect_iolist_as_binary t) else None)"
| "enif_inspect_iolist_as_binary (ECons (Binary b) t) =
     map_option ((@) b) (enif_inspect_iolist_as_binary t)"
| "enif_inspect_iolist_as_binary (ECons ENil t) = enif_inspect_iolist_as_binary t"
| "enif_inspect_iolist_as_binary (ECons (ECons h1 t1) t) =
     (case enif_inspect_iolist_as_binary (ECons h1 t1) of
        None \<Rightarrow> None
      | Some a \<Rightarrow> map_option ((@) a) (enif_inspect_iolist_as_binary t))"
| "enif_inspect_iolist_as_binary _ = None"

text \<open>
  Memory: \<open>enif_alloc\<close>, \<open>enif_alloc_binary\<close> and
  \<open>enif_alloc_resource\<close> may each fail. The state is the list of the outcomes of
  the allocation requests still to come, in program order; past its end every
  request succeeds.
\<close>

type_synonym allocs = "bool list"

fun alloc :: "allocs \<Rightarrow> bool \<times> allocs" where
  "alloc [] = (True, [])"
| "alloc (b # bs) = (b, bs)"


section \<open>Atoms and error tuples\<close>

definition a_ok :: eterm where "a_ok = Atom ''ok''"
definition a_error :: eterm where "a_error = Atom ''error''"
definition a_match :: eterm where "a_match = Atom ''match''"
definition a_nomatch :: eterm where "a_nomatch = Atom ''nomatch''"
definition a_capture :: eterm where "a_capture = Atom ''capture''"
definition a_global :: eterm where "a_global = Atom ''global''"
definition a_offset :: eterm where "a_offset = Atom ''offset''"
definition a_all :: eterm where "a_all = Atom ''all''"
definition a_all_but_first :: eterm where "a_all_but_first = Atom ''all_but_first''"
definition a_first :: eterm where "a_first = Atom ''first''"
definition a_none :: eterm where "a_none = Atom ''none''"
definition a_index :: eterm where "a_index = Atom ''index''"
definition a_binary :: eterm where "a_binary = Atom ''binary''"
definition a_caseless :: eterm where "a_caseless = Atom ''caseless''"
definition a_max_mem :: eterm where "a_max_mem = Atom ''max_mem''"
definition a_err_enif_alloc_binary :: eterm where
  "a_err_enif_alloc_binary = Atom ''enif_alloc_binary''"
definition a_err_enif_alloc_resource :: eterm where
  "a_err_enif_alloc_resource = Atom ''enif_alloc_resource''"
definition a_err_enif_alloc :: eterm where "a_err_enif_alloc = Atom ''enif_alloc''"
definition a_err_enif_get_atom :: eterm where "a_err_enif_get_atom = Atom ''enif_get_atom''"
definition a_err_enif_get_string :: eterm where
  "a_err_enif_get_string = Atom ''enif_get_string''"
definition a_re2_NoError :: eterm where "a_re2_NoError = Atom ''no_error''"
definition a_re2_ErrorInternal :: eterm where "a_re2_ErrorInternal = Atom ''internal''"
definition a_re2_ErrorBadEscape :: eterm where "a_re2_ErrorBadEscape = Atom ''bad_escape''"
definition a_re2_ErrorBadCharClass :: eterm where
  "a_re2_ErrorBadCharClass = Atom ''bad_char_class''"
definition a_re2_ErrorBadCharRange :: eterm where
  "a_re2_ErrorBadCharRange = Atom ''bad_char_range''"
definition a_re2_ErrorMissingBracket :: eterm where
  "a_re2_ErrorMissingBracket = Atom ''missing_bracket''"
definition a_re2_ErrorMissingParen :: eterm where
  "a_re2_ErrorMissingParen = Atom ''missing_paren''"
definition a_re2_ErrorTrailingBackslash :: eterm where
  "a_re2_ErrorTrailingBackslash = Atom ''trailing_backslash''"
definition a_re2_ErrorRepeatArgument :: eterm where
  "a_re2_ErrorRepeatArgument = Atom ''repeat_argument''"
definition a_re2_ErrorRepeatSize :: eterm where "a_re2_ErrorRepeatSize = Atom ''repeat_size''"
definition a_re2_ErrorRepeatOp :: eterm where "a_re2_ErrorRepeatOp = Atom ''repeat_op''"
definition a_re2_ErrorBadPerlOp :: eterm where "a_re2_ErrorBadPerlOp = Atom ''bad_perl_op''"
definition a_re2_ErrorBadUTF8 :: eterm where "a_re2_ErrorBadUTF8 = Atom ''bad_utf8''"
definition a_re2_ErrorBadNamedCapture :: eterm where
  "a_re2_ErrorBadNamedCapture = Atom ''bad_named_capture''"
definition a_re2_ErrorPatternTooLarge :: eterm where
  "a_re2_ErrorPatternTooLarge = Atom ''pattern_too_large''"

text \<open>\<open>error\<close>: make an error tuple.\<close>

definition error :: "eterm \<Rightarrow> eterm" where
  "error err = Tuple [a_error, err]"

text \<open>\<open>re2error\<close>: convert the engine's error code to an error term. The
  message and the fragment are \<open>std::string\<close>s handed over by
  \<open>c_str()\<close>.\<close>

definition re2error :: "RE2 \<Rightarrow> eterm" where
  "re2error re =
     (let code =
        (case re_error_code re of
           ErrorInternal \<Rightarrow> a_re2_ErrorInternal
         | ErrorBadEscape \<Rightarrow> a_re2_ErrorBadEscape
         | ErrorBadCharClass \<Rightarrow> a_re2_ErrorBadCharClass
         | ErrorBadCharRange \<Rightarrow> a_re2_ErrorBadCharRange
         | ErrorMissingBracket \<Rightarrow> a_re2_ErrorMissingBracket
         | ErrorMissingParen \<Rightarrow> a_re2_ErrorMissingParen
         | ErrorTrailingBackslash \<Rightarrow> a_re2_ErrorTrailingBackslash
         | ErrorRepeatArgument \<Rightarrow> a_re2_ErrorRepeatArgument
         | ErrorRepeatSize \<Rightarrow> a_re2_ErrorRepeatSize
         | ErrorRepeatOp \<Rightarrow> a_re2_ErrorRepeatOp
         | ErrorBadPerlOp \<Rightarrow> a_re2_ErrorBadPerlOp
         | ErrorBadUTF8 \<Rightarrow> a_re2_ErrorBadUTF8
         | ErrorBadNamedCapture \<Rightarrow> a_re2_ErrorBadNamedCapture
         | ErrorPatternTooLarge \<Rightarrow> a_re2_ErrorPatternTooLarge
         | _ \<Rightarrow> a_re2_NoError);
        error_str = enif_make_string (re_error re);
        error_arg = enif_make_string (re_error_arg re)
      in Tuple [a_error, Tuple [code, error_str, error_arg]])"

section \<open>Option records\<close>

text \<open>\<open>re2::RE2::Options\<close>, as far as the NIF sets it; the defaults are the
  engine's.\<close>

record Options =
  opt_case_sensitive :: bool
  opt_max_mem :: int
  opt_log_errors :: bool

definition Options_init :: Options where
  "Options_init =
     \<lparr>opt_case_sensitive = True, opt_max_mem = 8388608, opt_log_errors = True\<rparr>"

datatype value_spec = VS_ALL | VS_ALL_BUT_FIRST | VS_FIRST | VS_NONE | VS_VLIST

datatype capture_type = CT_INDEX | CT_LIST | CT_BINARY

record matchoptions =
  mo_caseless :: bool
  mo_offset :: int
  mo_vs :: value_spec
  mo_ct :: capture_type
  mo_vlist :: eterm

definition matchoptions_init :: matchoptions where
  "matchoptions_init =
     \<lparr>mo_caseless = False, mo_offset = 0, mo_vs = VS_ALL, mo_ct = CT_BINARY,
      mo_vlist = make_list []\<rparr>"

record replaceoptions =
  ro_global :: bool

definition replaceoptions_init :: replaceoptions where
  "replaceoptions_init = \<lparr>ro_global = False\<rparr>"

section \<open>re2:compile options\<close>

text \<open>
  The parsers return \<open>None\<close> for \<open>false\<close> and the updated record for
  \<open>true\<close>. The loop runs while \<open>enif_get_list_cell\<close> succeeds, so it ends
  with \<open>true\<close> at the first tail that is not a cons cell.
\<close>

fun parse_compile_options_loop :: "eterm \<Rightarrow> Options \<Rightarrow> Options option" where
  "parse_compile_options_loop (ECons H T) opts =
     (if enif_is_identical H a_caseless
      then parse_compile_options_loop T (opts\<lparr>opt_case_sensitive := False\<rparr>)
      else
        (case enif_get_tuple H of
           Some (tuplearity, tuple) \<Rightarrow>
             (if tuplearity = 2 then
                (if enif_is_identical (tuple ! 0) a_max_mem then
                   (case enif_get_int (tuple ! 1) of
                      Some max_mem \<Rightarrow>
                        parse_compile_options_loop T (opts\<lparr>opt_max_mem := max_mem\<rparr>)
                    | None \<Rightarrow> None)
                 else parse_compile_options_loop T opts)
              else parse_compile_options_loop T opts)
         | None \<Rightarrow> None))"
| "parse_compile_options_loop L opts = Some opts"

definition parse_compile_options :: "eterm \<Rightarrow> Options \<Rightarrow> Options option" where
  "parse_compile_options list opts =
     (if enif_is_empty_list list then Some opts
      else parse_compile_options_loop list opts)"

section \<open>re2:match options\<close>

definition parse_match_capture_options ::
  "matchoptions \<Rightarrow> eterm list \<Rightarrow> int \<Rightarrow> matchoptions" where
  "parse_match_capture_options opts tuple tuplearity =
     (let (opts1, vs_set) =
        (if enif_is_atom (tuple ! 1) then
           (if enif_is_atom (tuple ! 1) then
              ((if enif_is_identical (tuple ! 1) a_all
                  then opts\<lparr>mo_vs := VS_ALL\<rparr>
                else if enif_is_identical (tuple ! 1) a_all_but_first
                  then opts\<lparr>mo_vs := VS_ALL_BUT_FIRST\<rparr>
                else if enif_is_identical (tuple ! 1) a_first
                  then opts\<lparr>mo_vs := VS_FIRST\<rparr>
                else if enif_is_identical (tuple ! 1) a_none
                  then opts\<lparr>mo_vs := VS_NONE\<rparr>
                else opts), True)
            else (opts, False))
         else if \<not> enif_is_empty_list (tuple ! 1) then
           (opts\<lparr>mo_vlist := tuple ! 1, mo_vs := VS_VLIST\<rparr>, True)
         else (opts, False))
      in
        if tuplearity = 3 \<and> vs_set then
          (if enif_is_identical (tuple ! 2) a_index then opts1\<lparr>mo_ct := CT_INDEX\<rparr>
           else if enif_is_identical (tuple ! 2) a_binary then opts1\<lparr>mo_ct := CT_BINARY\<rparr>
           else opts1)
        else opts1)"

fun parse_match_options_loop :: "eterm \<Rightarrow> matchoptions \<Rightarrow> matchoptions option" where
  "parse_match_options_loop (ECons H T) opts =
     (if enif_is_identical H a_caseless
      then parse_match_options_loop T (opts\<lparr>mo_caseless := True\<rparr>)
      else
        (case enif_get_tuple H of
           Some (tuplearity, tuple) \<Rightarrow>
             (if tuplearity = 2 \<or> tuplearity = 3 then
                (if enif_is_identical (tuple ! 0) a_offset then
                   (case enif_get_int (tuple ! 1) of
                      Some offset \<Rightarrow>
                        parse_match_options_loop T (opts\<lparr>mo_offset := offset\<rparr>)
                    | None \<Rightarrow> None)
                 else if enif_is_identical (tuple ! 0) a_capture then
                   parse_match_options_loop T
                     (parse_match_capture_options opts tuple tuplearity)
                 else parse_match_options_loop T opts)
              else parse_match_options_loop T opts)
         | None \<Rightarrow> None))"
| "parse_match_options_loop L opts = Some opts"

definition parse_match_options :: "eterm \<Rightarrow> matchoptions \<Rightarrow> matchoptions option" where
  "parse_match_options list opts =
     (if enif_is_empty_list list then Some opts
      else parse_match_options_loop list opts)"

section \<open>re2:replace options\<close>

fun parse_replace_options_loop :: "eterm \<Rightarrow> replaceoptions \<Rightarrow> replaceoptions option" where
  "parse_replace_options_loop (ECons H T) opts =
     (if enif_is_identical H a_global
      then parse_replace_options_loop T (opts\<lparr>ro_global := True\<rparr>)
      else None)"
| "parse_replace_options_loop L opts = Some opts"

definition parse_replace_options :: "eterm \<Rightarrow> replaceoptions \<Rightarrow> replaceoptions option" where
  "parse_replace_options list opts =
     (if enif_is_empty_list list then Some opts
      else parse_replace_options_loop list opts)"


section \<open>Results of re2:match\<close>

text \<open>
  What a NIF call does: it raises \<open>badarg\<close> (\<open>enif_make_badarg\<close>), it
  returns a term, or it reads or writes memory it does not own (\<open>Fault\<close>:
  a store through the null pointer of a failed \<open>enif_alloc\<close>, a slot
  outside the vector the engine filled).
\<close>

datatype outcome = Badarg | Return eterm | Fault

text \<open>\<open>group[i]\<close>.\<close>

definition slot :: "StringPiece list \<Rightarrow> int \<Rightarrow> StringPiece option" where
  "slot grp i = (if 0 \<le> i \<and> nat i < length grp then Some (grp ! nat i) else None)"

text \<open>\<open>mres\<close>: build one capture value. The subject \<open>str\<close> starts at offset 0,
  so \<open>match.data() - str.data()\<close> is the offset of the piece.\<close>

definition mres :: "allocs \<Rightarrow> bytes \<Rightarrow> StringPiece \<Rightarrow> capture_type \<Rightarrow> eterm \<times> allocs" where
  "mres al str match ct =
     (case ct of
        CT_BINARY \<Rightarrow>
          (case alloc al of
             (False, al') \<Rightarrow> (a_err_enif_alloc_binary, al')
           | (True, al') \<Rightarrow> (Binary (sp_bytes str match), al'))
      | _ \<Rightarrow>
          (let (l, r) =
             (if sp_empty match then (- 1, 0)
              else (c_int (int (sp_offset match)), c_int (int (sp_size match))))
           in (Tuple [Integer l, Integer r], al)))"

text \<open>\<open>alloc_atom\<close>, \<open>alloc_str\<close>: \<open>None\<close> is \<open>nullptr\<close>, otherwise the
  length of the buffer.\<close>

definition alloc_atom :: "allocs \<Rightarrow> eterm \<Rightarrow> nat option \<times> allocs" where
  "alloc_atom al atom =
     (case enif_get_atom_length atom of
        None \<Rightarrow> (None, al)
      | Some atom_len \<Rightarrow>
          (case alloc al of
             (True, al') \<Rightarrow> (Some (atom_len + 1), al')
           | (False, al') \<Rightarrow> (None, al')))"

definition alloc_str :: "allocs \<Rightarrow> eterm \<Rightarrow> nat option \<times> allocs" where
  "alloc_str al list =
     (case enif_get_list_length list of
        None \<Rightarrow> (None, al)
      | Some list_len \<Rightarrow>
          (case alloc al of
             (True, al') \<Rightarrow> (Some (list_len + 1), al')
           | (False, al') \<Rightarrow> (None, al')))"

text \<open>
  One pass through the body of the loop of \<open>re2_match_ret_vlist\<close>, for the
  head \<open>VH\<close> of the reference list: \<open>Inl\<close> is a return from inside the
  loop, \<open>Inr\<close> the value pushed to \<open>vec\<close> with the allocation outcomes
  left. \<open>empty\<close> of the source is \<open>NullPiece\<close>.
\<close>

definition re2_match_ret_vlist_body ::
  "RE2 \<Rightarrow> bytes \<Rightarrow> matchoptions \<Rightarrow> StringPiece list \<Rightarrow> int \<Rightarrow> eterm \<Rightarrow> allocs
   \<Rightarrow> outcome + eterm \<times> allocs" where
  "re2_match_ret_vlist_body re s opts grp n VH al =
     (let nid = (case enif_get_int VH of Some i \<Rightarrow> i | None \<Rightarrow> 0) in
      if enif_get_int VH \<noteq> None \<and> nid > 0 then
        (if nid < n then
           (case slot grp nid of
              None \<Rightarrow> Inl Fault
            | Some match \<Rightarrow>
                (let (res, al') =
                   (if \<not> sp_empty match then mres al s match (mo_ct opts)
                    else mres al s NullPiece (mo_ct opts))
                 in if enif_is_identical res a_err_enif_alloc_binary
                    then Inl (Return (error a_err_enif_alloc_binary))
                    else Inr (res, al')))
         else Inr (mres al s NullPiece (mo_ct opts)))
      else if enif_is_atom VH then
        (case alloc_atom al VH of
           (None, al1) \<Rightarrow> Inl (Return (error a_err_enif_alloc))
         | (Some atom_len, al1) \<Rightarrow>
             (case enif_get_atom VH atom_len of
                Some a_id \<Rightarrow>
                  (case re_NamedCapturingGroups re (c_str a_id) of
                     Some idx \<Rightarrow>
                       (case slot grp idx of
                          None \<Rightarrow> Inl Fault
                        | Some match \<Rightarrow>
                            (let (res, al') = mres al1 s match (mo_ct opts)
                             in if enif_is_identical res a_err_enif_alloc_binary
                                then Inl (Return (error a_err_enif_alloc_binary))
                                else Inr (res, al')))
                   | None \<Rightarrow>
                       (let (res, al') = mres al1 s NullPiece (mo_ct opts)
                        in if enif_is_identical res a_err_enif_alloc_binary
                           then Inl (Return (error a_err_enif_alloc_binary))
                           else Inr (res, al')))
              | None \<Rightarrow> Inl (Return (error a_err_enif_get_atom))))
      else
        (case alloc_str al VH of
           (None, al1) \<Rightarrow> Inl (Return (error a_err_enif_alloc))
         | (Some str_len, al1) \<Rightarrow>
             (case enif_get_string VH str_len of
                Some str_id \<Rightarrow>
                  (case re_NamedCapturingGroups re (c_str str_id) of
                     Some idx \<Rightarrow>
                       (case slot grp idx of
                          None \<Rightarrow> Inl Fault
                        | Some match \<Rightarrow>
                            (let (res, al') = mres al1 s match (mo_ct opts)
                             in if enif_is_identical res a_err_enif_alloc_binary
                                then Inl (Return (error a_err_enif_alloc_binary))
                                else Inr (res, al')))
                   | None \<Rightarrow>
                       (let (res, al') = mres al1 s NullPiece (mo_ct opts)
                        in if enif_is_identical res a_err_enif_alloc_binary
                           then Inl (Return (error a_err_enif_alloc_binary))
                           else Inr (res, al')))
              | None \<Rightarrow> Inl (Return (error a_err_enif_get_string)))))"

text \<open>The loop of \<open>re2_match_ret_vlist\<close> over the cells of the reference list;
  \<open>vec\<close> is the vector of the results so far.\<close>

fun re2_match_ret_vlist_loop ::
  "RE2 \<Rightarrow> bytes \<Rightarrow> matchoptions \<Rightarrow> StringPiece list \<Rightarrow> int \<Rightarrow> eterm \<Rightarrow> eterm list \<Rightarrow> allocs
   \<Rightarrow> outcome" where
  "re2_match_ret_vlist_loop re s opts grp n (ECons VH VT) vec al =
     (case re2_match_ret_vlist_body re s opts grp n VH al of
        Inl out \<Rightarrow> out
      | Inr (res, al') \<Rightarrow> re2_match_ret_vlist_loop re s opts grp n VT (vec @ [res]) al')"
| "re2_match_ret_vlist_loop re s opts grp n VL vec al =
     Return (Tuple [a_match, make_list vec])"

definition re2_match_ret_vlist ::
  "allocs \<Rightarrow> RE2 \<Rightarrow> bytes \<Rightarrow> matchoptions \<Rightarrow> StringPiece list \<Rightarrow> int \<Rightarrow> outcome" where
  "re2_match_ret_vlist al re s opts grp n =
     re2_match_ret_vlist_loop re s opts grp n (mo_vlist opts) [] al"

text \<open>Number of capturing groups to request from the engine.\<close>

definition number_of_capturing_groups :: "int \<Rightarrow> value_spec \<Rightarrow> int" where
  "number_of_capturing_groups nr_groups vs =
     (case vs of VS_NONE \<Rightarrow> 0 | VS_FIRST \<Rightarrow> 1 | _ \<Rightarrow> nr_groups)"


text \<open>\<open>enif_get_resource\<close> for the resource type of this module.\<close>

fun enif_get_resource :: "eterm \<Rightarrow> re2_handle option" where
  "enif_get_resource (Resource h) = Some h"
| "enif_get_resource _ = None"

text \<open>
  The loop of \<open>re2_match_impl\<close> that shapes the slots \<open>i, ..., n - 1\<close> into
  the array \<open>arr\<close>; \<open>arr_ok\<close> is false when the array's \<open>enif_alloc\<close>
  returned \<open>nullptr\<close>, which the source does not check before it stores.
  \<open>Inl\<close> is an early return, \<open>Inr\<close> the array after the loop.
\<close>

function re2_match_impl_loop ::
  "bool \<Rightarrow> bytes \<Rightarrow> capture_type \<Rightarrow> StringPiece list \<Rightarrow> int \<Rightarrow> int \<Rightarrow> eterm list \<Rightarrow> allocs
   \<Rightarrow> outcome + eterm list" where
  "re2_match_impl_loop arr_ok s ct grp n i arr al =
     (if i < n then
        (case slot grp i of
           None \<Rightarrow> Inl Fault
         | Some g \<Rightarrow>
             (let (res, al') = mres al s g ct
              in if enif_is_identical res a_err_enif_alloc_binary
                 then Inl (Return (error a_err_enif_alloc_binary))
                 else if \<not> arr_ok then Inl Fault
                 else re2_match_impl_loop arr_ok s ct grp n (i + 1) (arr @ [res]) al'))
      else Inr arr)"
  by pat_completeness auto
termination
  by (relation "measure (\<lambda>(arr_ok, s, ct, grp, n, i, arr, al). nat (n - i))") auto

text \<open>
  \<open>re2_match_impl\<close>. \<open>RE2_new p opts\<close> is the engine's constructor
  \<open>re2::RE2(p, opts)\<close>; \<open>argc\<close> is the length of \<open>argv\<close> (2 or 3 in
  the table of NIFs).
\<close>

definition re2_match_impl ::
  "(bytes \<Rightarrow> Options \<Rightarrow> RE2) \<Rightarrow> allocs \<Rightarrow> eterm list \<Rightarrow> outcome" where
  "re2_match_impl RE2_new al argv =
     (let argc = int (length argv) in
      case enif_inspect_iolist_as_binary (argv ! 0) of
        None \<Rightarrow> Badarg
      | Some s \<Rightarrow>
          (case (if argc = 3 then parse_match_options (argv ! 2) matchoptions_init
                 else Some matchoptions_init) of
             None \<Rightarrow> Badarg
           | Some opts \<Rightarrow>
               (case
                  (case enif_get_resource (argv ! 1) of
                     Some (Some handle_re) \<Rightarrow>
                       if mo_caseless opts then Inl Badarg else Inr (handle_re, al)
                   | _ \<Rightarrow>
                       (case enif_inspect_iolist_as_binary (argv ! 1) of
                          Some p \<Rightarrow>
                            (let re2opts0 = Options_init\<lparr>opt_log_errors := False\<rparr>;
                                 re2opts =
                                   (if mo_caseless opts
                                    then re2opts0\<lparr>opt_case_sensitive := False\<rparr>
                                    else re2opts0)
                             in case alloc al of
                                  (False, al1) \<Rightarrow> Inl (Return (error a_err_enif_alloc))
                                | (True, al1) \<Rightarrow> Inr (RE2_new p re2opts, al1))
                        | None \<Rightarrow> Inl Badarg))
                of
                  Inl out \<Rightarrow> out
                | Inr (re, al1) \<Rightarrow>
                    if \<not> re_ok re then Badarg
                    else
                      (let nr_groups = re_NumberOfCapturingGroups re + 1;
                           n = number_of_capturing_groups nr_groups (mo_vs opts)
                       in case re_Match re s (mo_offset opts) n of
                            Some grp \<Rightarrow>
                              (if mo_vs opts = VS_NONE then Return a_match
                               else if mo_vs opts = VS_FIRST then
                                 (case slot grp 0 of
                                    None \<Rightarrow> Fault
                                  | Some g0 \<Rightarrow>
                                      (let (first, al2) = mres al1 s g0 (mo_ct opts)
                                       in if enif_is_identical first a_err_enif_alloc_binary
                                          then Return (error a_err_enif_alloc_binary)
                                          else Return (Tuple [a_match, make_list [first]])))
                               else
                                 (let (start, arrsz) =
                                    (if mo_vs opts = VS_ALL_BUT_FIRST then (1, n - 1)
                                     else (0, n))
                                  in if mo_vs opts = VS_VLIST
                                     then re2_match_ret_vlist al1 re s opts grp n
                                     else
                                       (case alloc al1 of
                                          (arr_ok, al2) \<Rightarrow>
                                            (case re2_match_impl_loop arr_ok s (mo_ct opts)
                                                    grp n start [] al2 of
                                               Inl out \<Rightarrow> out
                                             | Inr arr \<Rightarrow>
                                                 if arrsz < 0 then Fault
                                                 else Return (Tuple [a_match,
                                                        make_list (take (nat arrsz) arr)])))))
                          | None \<Rightarrow> Return a_nomatch))))"

section \<open>re2:compile\<close>

definition re2_compile_impl ::
  "(bytes \<Rightarrow> Options \<Rightarrow> RE2) \<Rightarrow> allocs \<Rightarrow> eterm list \<Rightarrow> outcome" where
  "re2_compile_impl RE2_new al argv =
     (let argc = int (length argv) in
      case enif_inspect_iolist_as_binary (argv ! 0) of
        Some p \<Rightarrow>
          (case alloc al of
             (False, al1) \<Rightarrow> Return (error a_err_enif_alloc_resource)
           | (True, al1) \<Rightarrow>
               (let re2opts0 = Options_init\<lparr>opt_log_errors := False\<rparr> in
                case (if argc = 2 then parse_compile_options (argv ! 1) re2opts0
                      else Some re2opts0) of
                  None \<Rightarrow> Badarg
                | Some re2opts \<Rightarrow>
                    (case alloc al1 of
                       (False, al2) \<Rightarrow> Return (error a_err_enif_alloc)
                     | (True, al2) \<Rightarrow>
                         (let re = RE2_new p re2opts in
                          if \<not> re_ok re then Return (re2error re)
                          else Return (Tuple [a_ok, Resource (Some re)])))))
      | None \<Rightarrow> Badarg)"

section \<open>re2:replace\<close>

text \<open>\<open>rres\<close>: build the result of re2:replace.\<close>

definition rres :: "allocs \<Rightarrow> bytes \<Rightarrow> eterm" where
  "rres al s =
     (case alloc al of
        (False, al') \<Rightarrow> error a_err_enif_alloc_binary
      | (True, al') \<Rightarrow> Binary s)"

definition re2_replace_impl ::
  "(bytes \<Rightarrow> Options \<Rightarrow> RE2) \<Rightarrow> allocs \<Rightarrow> eterm list \<Rightarrow> outcome" where
  "re2_replace_impl RE2_new al argv =
     (let argc = int (length argv) in
      case (enif_inspect_iolist_as_binary (argv ! 0),
            enif_inspect_iolist_as_binary (argv ! 2)) of
        (Some s, Some r) \<Rightarrow>
          (case
             (case enif_get_resource (argv ! 1) of
                Some (Some handle_re) \<Rightarrow> Inr (handle_re, al)
              | _ \<Rightarrow>
                  (case enif_inspect_iolist_as_binary (argv ! 1) of
                     Some p \<Rightarrow>
                       (let re2opts = Options_init\<lparr>opt_log_errors := False\<rparr>
                        in case alloc al of
                             (False, al1) \<Rightarrow> Inl (Return (error a_err_enif_alloc))
                           | (True, al1) \<Rightarrow> Inr (RE2_new p re2opts, al1))
                   | None \<Rightarrow> Inl Badarg))
           of
             Inl out \<Rightarrow> out
           | Inr (re, al1) \<Rightarrow>
               if \<not> re_ok re then Badarg
               else
                 (case (if argc = 4 then parse_replace_options (argv ! 3) replaceoptions_init
                        else Some replaceoptions_init) of
                    None \<Rightarrow> Badarg
                  | Some opts \<Rightarrow>
                      if ro_global opts then
                        (case re_GlobalReplace re s r of
                           (count, s') \<Rightarrow>
                             if count \<noteq> 0 then Return (rres al1 s') else Return a_error)
                      else
                        (case re_Replace re s r of
                           (replaced, s') \<Rightarrow>
                             if replaced then Return (rres al1 s') else Return a_error)))
      | _ \<Rightarrow> Badarg)"


section \<open>Pattern objects\<close>

text \<open>
  The pattern object a call works with, for the pattern argument \<open>P\<close>: the one
  of a handle, or the one the engine's constructor \<open>RE2_new\<close> builds for an
  inline pattern with the options \<open>opts\<close> once \<open>enif_alloc\<close> gave the
  memory for it; with it the allocation outcomes still to come.
\<close>

definition pattern_object ::
  "(bytes \<Rightarrow> Options \<Rightarrow> RE2) \<Rightarrow> allocs \<Rightarrow> Options \<Rightarrow> eterm \<Rightarrow> (RE2 \<times> allocs) option" where
  "pattern_object RE2_new al opts P =
     (case enif_get_resource P of
        Some (Some re) \<Rightarrow> Some (re, al)
      | _ \<Rightarrow>
          (case enif_inspect_iolist_as_binary P of
             Some p \<Rightarrow>
               (case alloc al of
                  (True, al1) \<Rightarrow> Some (RE2_new p opts, al1)
                | (False, al1) \<Rightarrow> None)
           | None \<Rightarrow> None))"

section \<open>Engines for the scenarios of the specification\<close>

text \<open>
  The engine's answers for the pattern \<open>(\d+)-(\d+)\<close> on the subject
  \<open>12-34\<close> (section 8 of the specification), and for the pattern
  \<open>(foo\<close>, which it rejects with a missing parenthesis.
\<close>

definition re_digits :: RE2 where
  "re_digits =
     \<lparr>re_ok = True, re_error_code = NoError, re_error = [], re_error_arg = [],
      re_NumberOfCapturingGroups = 2,
      re_NamedCapturingGroups = (\<lambda>name. None),
      re_Match = (\<lambda>text startpos n.
         if text = ''12-34'' \<and> startpos = 0
         then Some (take (nat n) [Sub 0 5, Sub 0 2, Sub 3 2]) else None),
      re_Replace = (\<lambda>text rewrite.
         if text = ''12-34'' then (True, rewrite) else (False, text)),
      re_GlobalReplace = (\<lambda>text rewrite.
         if text = ''12-34'' then (1, rewrite) else (0, text))\<rparr>"

definition re_missing_paren :: RE2 where
  "re_missing_paren =
     \<lparr>re_ok = False, re_error_code = ErrorMissingParen,
      re_error = ''missing ): (foo'', re_error_arg = ''(foo'',
      re_NumberOfCapturingGroups = - 1,
      re_NamedCapturingGroups = (\<lambda>name. None),
      re_Match = (\<lambda>text startpos n. None),
      re_Replace = (\<lambda>text rewrite. (False, text)),
      re_GlobalReplace = (\<lambda>text rewrite. (0, text))\<rparr>"

text \<open>The same for the pattern of the three bytes \<open>(\<close>, NUL and \<open>a\<close>: the
  engine's message and fragment hold the NUL byte of the pattern.\<close>

definition re_nul_paren :: RE2 where
  "re_nul_paren =
     \<lparr>re_ok = False, re_error_code = ErrorMissingParen,
      re_error = ''missing ): ('' @ [CHR 0x00, CHR ''a''],
      re_error_arg = [CHR ''('', CHR 0x00, CHR ''a''],
      re_NumberOfCapturingGroups = - 1,
      re_NamedCapturingGroups = (\<lambda>name. None),
      re_Match = (\<lambda>text startpos n. None),
      re_Replace = (\<lambda>text rewrite. (False, text)),
      re_GlobalReplace = (\<lambda>text rewrite. (0, text))\<rparr>"

definition RE2_scenarios :: "bytes \<Rightarrow> Options \<Rightarrow> RE2" where
  "RE2_scenarios p opts =
     (if p = ''(foo'' then re_missing_paren
      else if p = [CHR ''('', CHR 0x00, CHR ''a''] then re_nul_paren
      else re_digits)"

section \<open>The error payload of the specification\<close>



text \<open>The engine options of an inline pattern in \<open>re2_match_impl\<close>: errors are
  not logged, and \<open>caseless\<close> switches case sensitivity off.\<close>

definition match_re2opts :: "matchoptions \<Rightarrow> Options" where
  "match_re2opts opts =
     (if mo_caseless opts
      then Options_init\<lparr>opt_log_errors := False, opt_case_sensitive := False\<rparr>
      else Options_init\<lparr>opt_log_errors := False\<rparr>)"

section \<open>Unmatched values and unfound references\<close>

text \<open>
  The canonical unmatched value of a shape (section 3 of the specification): the
  byte range \<open>(-1, 0)\<close> in index shape, the empty binary in binary shape.
  A reference of a list is unfound for a call that requested \<open>n\<close> slots when
  it is a positive integer of the C \<open>int\<close> that is not below \<open>n\<close>, or
  an atom or a Latin-1 string whose name (read as a C string) is not in the
  engine's table of named groups.
\<close>

definition unmatched :: "capture_type \<Rightarrow> eterm" where
  "unmatched ct =
     (case ct of CT_BINARY \<Rightarrow> Binary [] | _ \<Rightarrow> Tuple [Integer (- 1), Integer 0])"

definition unfound_reference :: "RE2 \<Rightarrow> int \<Rightarrow> eterm \<Rightarrow> bool" where
  "unfound_reference re n VH =
     (case VH of
        Integer nid \<Rightarrow> 0 < nid \<and> n \<le> nid \<and> nid \<le> 2147483647
      | Atom a \<Rightarrow> re_NamedCapturingGroups re (c_str a) = None
      | _ \<Rightarrow>
          (case latin1_chars VH of
             Some cs \<Rightarrow> re_NamedCapturingGroups re (c_str cs) = None
           | None \<Rightarrow> False))"

section \<open>Capture values and the engine's slots\<close>



section \<open>Basic facts\<close>

lemmas atom_defs =
  a_ok_def a_error_def a_match_def a_nomatch_def a_capture_def a_global_def
  a_offset_def a_all_def a_all_but_first_def a_first_def a_none_def a_index_def
  a_binary_def a_caseless_def a_max_mem_def a_err_enif_alloc_binary_def
  a_err_enif_alloc_resource_def a_err_enif_alloc_def a_err_enif_get_atom_def
  a_err_enif_get_string_def a_re2_NoError_def a_re2_ErrorInternal_def
  a_re2_ErrorBadEscape_def a_re2_ErrorBadCharClass_def a_re2_ErrorBadCharRange_def
  a_re2_ErrorMissingBracket_def a_re2_ErrorMissingParen_def
  a_re2_ErrorTrailingBackslash_def a_re2_ErrorRepeatArgument_def
  a_re2_ErrorRepeatSize_def a_re2_ErrorRepeatOp_def a_re2_ErrorBadPerlOp_def
  a_re2_ErrorBadUTF8_def a_re2_ErrorBadNamedCapture_def a_re2_ErrorPatternTooLarge_def

lemma empty_make_list [simp]: "enif_is_empty_list (make_list es) = (es = [])"
  by (cases es) auto

section \<open>Option parsers\<close>

lemma replace_loop_exact:
  "parse_replace_options_loop (make_list es) opts =
     (if \<forall>e\<in>set es. e = a_global
      then Some (if es = [] then opts else opts\<lparr>ro_global := True\<rparr>)
      else None)"
  by (induction es arbitrary: opts) (auto simp: enif_is_identical_def)



text \<open>
  Claim C1 fails on the code. \<open>parse_compile_options\<close> and
  \<open>parse_match_options\<close> return false for an entry that is neither the bare
  flag nor a tuple, and for \<open>{max_mem, X}\<close> or \<open>{offset, X}\<close> with
  \<open>X\<close> no integer; but the tests on the arity and on the tag of a tuple have
  no else branch, so a tuple with an unknown tag or with the wrong arity is
  skipped and the parse returns true: the compile call with \<open>[{bogus, 1}]\<close>
  returns a handle and the match call with \<open>[{bogus, 1, 2}]\<close> a match,
  where the claim has \<open>badarg\<close>. The same loops reject the unknown atom
  \<open>bogus\<close>, and \<open>parse_replace_options\<close> rejects the pair
  \<open>{bogus, 1}\<close>.
\<close>

theorem unknown_tuple_option_accepted:
  "parse_compile_options (make_list [Tuple [Atom ''bogus'', Integer 1]]) Options_init
     = Some Options_init \<and>
   parse_compile_options (make_list [Tuple [a_max_mem]]) Options_init = Some Options_init \<and>
   parse_match_options (make_list [Tuple [Atom ''bogus'', Integer 1, Integer 2]]) matchoptions_init
     = Some matchoptions_init \<and>
   parse_match_options (make_list [Tuple [a_offset]]) matchoptions_init
     = Some matchoptions_init \<and>
   re2_compile_impl RE2_scenarios [] [Binary ''x'', make_list [Tuple [Atom ''bogus'', Integer 1]]]
     = Return (Tuple [a_ok, Resource (Some re_digits)]) \<and>
   re2_match_impl RE2_scenarios []
       [Binary ''12-34'', Resource (Some re_digits),
        make_list [Tuple [Atom ''bogus'', Integer 1, Integer 2]]]
     = Return (Tuple [a_match, make_list [Binary ''12-34'', Binary ''12'', Binary ''34'']]) \<and>
   parse_compile_options (make_list [Atom ''bogus'']) Options_init = None \<and>
   parse_match_options (make_list [Atom ''bogus'']) matchoptions_init = None \<and>
   parse_replace_options (make_list [Tuple [Atom ''bogus'', Integer 1]]) replaceoptions_init
     = None"
  by (simp add: parse_compile_options_def parse_match_options_def parse_replace_options_def
      enif_is_identical_def atom_defs re2_compile_impl_def re2_match_impl_def
      RE2_scenarios_def re_digits_def Options_init_def matchoptions_init_def
      number_of_capturing_groups_def re2_match_impl_loop.simps slot_def mres_def)



section \<open>Shaping one capture value\<close>

lemma c_int_size_nonzero:
  assumes "0 < n" and "n < 4294967296"
  shows "c_int (int n) \<noteq> 0"
proof (cases "n < 2147483648")
  case True
  with assms show ?thesis by (simp add: c_int_def)
next
  case False
  have "(int n + 2147483648) mod 4294967296
          = (int n - 2147483648 + 4294967296) mod 4294967296"
    by (simp add: algebra_simps)
  also have "\<dots> = (int n - 2147483648) mod 4294967296"
    by (simp only: mod_add_self2)
  also have "\<dots> = int n - 2147483648"
    using False assms by (intro mod_pos_pos_trivial) simp_all
  finally show ?thesis
    using assms by (simp add: c_int_def)
qed

text \<open>
  Claim C10. In index shape \<open>mres\<close> returns the pair \<open>(-1, 0)\<close> exactly
  when the piece is empty (for a piece shorter than \<open>2^32\<close> bytes, so that
  its size does not wrap to 0 in the C \<open>int\<close>). An empty piece is shaped
  as the null piece of a group that took no part in the match, in every shape
  and with the same allocation outcome: the two cannot be told apart.
\<close>

theorem index_placeholder_iff_empty:
  "sp_size p < 4294967296 \<Longrightarrow>
   ((fst (mres al str p CT_INDEX) = Tuple [Integer (- 1), Integer 0]) = sp_empty p) \<and>
   (sp_empty p \<longrightarrow> mres al str p ct = mres al str NullPiece ct)"
proof -
  assume b: "sp_size p < 4294967296"
  have e: "sp_empty p \<Longrightarrow> mres al str p ct = mres al str NullPiece ct" for ct
    by (cases p) (auto simp: mres_def sp_empty_def split: capture_type.splits prod.splits bool.splits)
  have i: "(fst (mres al str p CT_INDEX) = Tuple [Integer (- 1), Integer 0]) = sp_empty p"
  proof (cases "sp_empty p")
    case True
    then show ?thesis by (simp add: mres_def)
  next
    case False
    then have "0 < sp_size p" by (simp add: sp_empty_def)
    with b have "c_int (int (sp_size p)) \<noteq> 0" by (simp add: c_int_size_nonzero)
    with False show ?thesis by (simp add: mres_def)
  qed
  from e i show ?thesis by blast
qed


theorem index_placeholder_iff_empty_witness:
  "((fst (mres [] ''12-34'' (Sub 3 2) CT_INDEX) = Tuple [Integer (- 1), Integer 0])
      = sp_empty (Sub 3 2)) \<and>
   ((fst (mres [] ''12-34'' (Sub 3 0) CT_INDEX) = Tuple [Integer (- 1), Integer 0])
      = sp_empty (Sub 3 0)) \<and>
   sp_empty (Sub 3 0) \<and>
   mres [] ''12-34'' (Sub 3 0) CT_BINARY = mres [] ''12-34'' NullPiece CT_BINARY \<and>
   mres [] ''12-34'' NullPiece CT_BINARY = (Binary [], [])"
  using index_placeholder_iff_empty [of "Sub 3 2" "[]" "''12-34''" CT_BINARY]
        index_placeholder_iff_empty [of "Sub 3 0" "[]" "''12-34''" CT_BINARY]
  by (simp add: sp_empty_def mres_def)

section \<open>Pattern resolution\<close>

lemma capture_options_caseless:
  "mo_caseless (parse_match_capture_options opts tuple tuplearity) = mo_caseless opts"
  by (simp add: parse_match_capture_options_def Let_def split: prod.splits)

lemma match_loop_caseless_kept:
  "parse_match_options_loop L opts = Some opts' \<Longrightarrow> mo_caseless opts \<Longrightarrow> mo_caseless opts'"
proof (induction L opts rule: parse_match_options_loop.induct)
  case (1 H T opts)
  then show ?case
    by (auto simp: capture_options_caseless split: if_splits option.splits prod.splits)
qed simp_all

lemma match_loop_caseless_set:
  "parse_match_options_loop (make_list es) opts = Some opts' \<Longrightarrow> a_caseless \<in> set es \<Longrightarrow>
   mo_caseless opts'"
proof (induction es arbitrary: opts)
  case Nil
  then show ?case by simp
next
  case (Cons e es)
  show ?case
  proof (cases "e = a_caseless")
    case True
    with Cons.prems(1) show ?thesis
      by (auto simp: enif_is_identical_def dest: match_loop_caseless_kept)
  next
    case False
    with Cons.prems(2) have "a_caseless \<in> set es" by simp
    with Cons.prems(1) Cons.IH False show ?thesis
      by (auto simp: enif_is_identical_def split: if_splits option.splits prod.splits)
  qed
qed

text \<open>
  Claim C5. A match call that gets a handle as its pattern and an option list
  with the bare \<open>caseless\<close> raises \<open>badarg\<close>: either an argument is
  malformed, or the options parse, \<open>caseless\<close> is set and the branch of the
  handle refuses it.
\<close>

theorem caseless_with_handle_is_badarg:
  "a_caseless \<in> set es \<Longrightarrow>
   re2_match_impl RE2_new al [S, Resource h, make_list es] = Badarg"
proof -
  assume c: "a_caseless \<in> set es"
  then have ne: "es \<noteq> []" by auto
  have p: "mo_caseless opts" if "parse_match_options (make_list es) matchoptions_init = Some opts"
    for opts
    using that c ne match_loop_caseless_set [of es matchoptions_init opts]
    by (simp add: parse_match_options_def)
  show ?thesis
    by (auto simp: re2_match_impl_def p split: option.splits)
qed

theorem caseless_with_handle_is_badarg_witness:
  "a_caseless \<in> set [Tuple [a_capture, a_first], a_caseless] \<and>
   re2_match_impl RE2_scenarios [] [Binary ''12-34'', Resource (Some re_digits),
      make_list [Tuple [a_capture, a_first], a_caseless]] = Badarg \<and>
   re2_match_impl RE2_scenarios [] [Binary ''12-34'', Resource (Some re_digits),
      make_list [Tuple [a_capture, a_first]]]
     = Return (Tuple [a_match, make_list [Binary ''12-34'']])"
  using caseless_with_handle_is_badarg
          [of "[Tuple [a_capture, a_first], a_caseless]" RE2_scenarios "[]" "Binary ''12-34''"
              "Some re_digits"]
  by (simp add: re2_match_impl_def parse_match_options_def parse_match_capture_options_def
      enif_is_identical_def atom_defs matchoptions_init_def re_digits_def
      number_of_capturing_groups_def slot_def mres_def)






section \<open>Replacer\<close>

lemma pattern_object_cases:
  assumes "pattern_object RE2_new al opts P = Some (re, al1)"
  obtains (handle) "P = Resource (Some re)" and "al1 = al"
  | (inline) p where "enif_inspect_iolist_as_binary P = Some p"
      and "enif_get_resource P = None" and "alloc al = (True, al1)"
      and "re = RE2_new p opts"
  using assms
  by (cases P)
     (auto simp: pattern_object_def split: option.splits prod.splits bool.splits if_splits)

text \<open>
  Claim C9. With a subject and a template that are iolists and a pattern object
  that is valid, \<open>re2:replace\<close> without options, or with the empty option
  list, calls the engine's \<open>Replace\<close> (its substitution of the first
  occurrence); with a list of \<open>global\<close> flags it calls the engine's
  \<open>GlobalReplace\<close> (its substitution of every non-overlapping occurrence).
  When the engine reports a substitution the result is \<open>rres\<close> of the
  rewritten text, which is that text as a binary when its allocation succeeds;
  when the engine reports none the result is the bare atom \<open>error\<close>.
  What the two engine calls rewrite is the engine's contract and a parameter here.
\<close>

theorem replace_first_or_global:
  assumes "enif_inspect_iolist_as_binary S = Some s"
    and "enif_inspect_iolist_as_binary T = Some r"
    and "pattern_object RE2_new al (Options_init\<lparr>opt_log_errors := False\<rparr>) P = Some (re, al1)"
    and "re_ok re"
  shows
  "re2_replace_impl RE2_new al [S, P, T] =
     (if fst (re_Replace re s r) then Return (rres al1 (snd (re_Replace re s r)))
      else Return a_error) \<and>
   re2_replace_impl RE2_new al [S, P, T, make_list []] =
     (if fst (re_Replace re s r) then Return (rres al1 (snd (re_Replace re s r)))
      else Return a_error) \<and>
   re2_replace_impl RE2_new al [S, P, T, make_list (a_global # gs)] =
     (if \<forall>g\<in>set gs. g = a_global
      then (if fst (re_GlobalReplace re s r) \<noteq> 0
            then Return (rres al1 (snd (re_GlobalReplace re s r)))
            else Return a_error)
      else Badarg) \<and>
   rres al1 s' = (if fst (alloc al1) then Binary s' else error a_err_enif_alloc_binary)"
proof -
  have pg: "parse_replace_options (make_list (a_global # gs)) replaceoptions_init =
     (if \<forall>g\<in>set gs. g = a_global then Some (replaceoptions_init\<lparr>ro_global := True\<rparr>) else None)"
    using replace_loop_exact [of "a_global # gs" replaceoptions_init]
    by (simp add: parse_replace_options_def)
  have d: "rres al1 s' = (if fst (alloc al1) then Binary s' else error a_err_enif_alloc_binary)"
    by (simp add: rres_def split: prod.splits bool.splits)
  from assms(3) have abc:
    "re2_replace_impl RE2_new al [S, P, T] =
       (if fst (re_Replace re s r) then Return (rres al1 (snd (re_Replace re s r)))
        else Return a_error) \<and>
     re2_replace_impl RE2_new al [S, P, T, make_list []] =
       (if fst (re_Replace re s r) then Return (rres al1 (snd (re_Replace re s r)))
        else Return a_error) \<and>
     re2_replace_impl RE2_new al [S, P, T, make_list (a_global # gs)] =
       (if \<forall>g\<in>set gs. g = a_global
        then (if fst (re_GlobalReplace re s r) \<noteq> 0
              then Return (rres al1 (snd (re_GlobalReplace re s r)))
              else Return a_error)
        else Badarg)"
  proof (cases rule: pattern_object_cases)
    case handle
    with assms(1,2,4) have
      "re2_replace_impl RE2_new al [S, P, T] =
         (if fst (re_Replace re s r) then Return (rres al1 (snd (re_Replace re s r)))
          else Return a_error)"
      and "re2_replace_impl RE2_new al [S, P, T, make_list []] =
         (if fst (re_Replace re s r) then Return (rres al1 (snd (re_Replace re s r)))
          else Return a_error)"
      by (simp_all add: re2_replace_impl_def replaceoptions_init_def parse_replace_options_def
          split: prod.splits)
    moreover from handle assms(1,2,4) have
      "re2_replace_impl RE2_new al [S, P, T, make_list (a_global # gs)] =
         (if \<forall>g\<in>set gs. g = a_global
          then (if fst (re_GlobalReplace re s r) \<noteq> 0
                then Return (rres al1 (snd (re_GlobalReplace re s r)))
                else Return a_error)
          else Badarg)"
      by (simp add: re2_replace_impl_def pg del: make_list.simps split: prod.splits)
    ultimately show ?thesis by blast
  next
    case (inline p)
    with assms(1,2,4) have
      "re2_replace_impl RE2_new al [S, P, T] =
         (if fst (re_Replace re s r) then Return (rres al1 (snd (re_Replace re s r)))
          else Return a_error)"
      and "re2_replace_impl RE2_new al [S, P, T, make_list []] =
         (if fst (re_Replace re s r) then Return (rres al1 (snd (re_Replace re s r)))
          else Return a_error)"
      by (simp_all add: re2_replace_impl_def replaceoptions_init_def parse_replace_options_def
          split: prod.splits)
    moreover from inline assms(1,2,4) have
      "re2_replace_impl RE2_new al [S, P, T, make_list (a_global # gs)] =
         (if \<forall>g\<in>set gs. g = a_global
          then (if fst (re_GlobalReplace re s r) \<noteq> 0
                then Return (rres al1 (snd (re_GlobalReplace re s r)))
                else Return a_error)
          else Badarg)"
      by (simp add: re2_replace_impl_def pg del: make_list.simps split: prod.splits)
    ultimately show ?thesis by blast
  qed
  from abc d show ?thesis by blast
qed

theorem replace_first_or_global_witness:
  "re2_replace_impl RE2_scenarios [] [Binary ''12-34'', Binary ''[0-9]+-[0-9]+'', Binary ''x'']
     = Return (Binary ''x'') \<and>
   re2_replace_impl RE2_scenarios [] [Binary ''ab'', Binary ''[0-9]+-[0-9]+'', Binary ''x'']
     = Return a_error \<and>
   re2_replace_impl RE2_scenarios [] [Binary ''12-34'', Resource (Some re_digits), Binary ''x'',
       make_list [a_global]]
     = Return (Binary ''x'') \<and>
   re2_replace_impl RE2_scenarios [] [Binary ''ab'', Resource (Some re_digits), Binary ''x'',
       make_list [a_global, a_global]]
     = Return a_error"
  using replace_first_or_global
          [of "Binary ''12-34''" "''12-34''" "Binary ''x''" "''x''" RE2_scenarios "[]"
              "Binary ''[0-9]+-[0-9]+''" re_digits "[]" "[]" "[]"]
        replace_first_or_global
          [of "Binary ''ab''" "''ab''" "Binary ''x''" "''x''" RE2_scenarios "[]"
              "Binary ''[0-9]+-[0-9]+''" re_digits "[]" "[]" "[]"]
        replace_first_or_global
          [of "Binary ''12-34''" "''12-34''" "Binary ''x''" "''x''" RE2_scenarios "[]"
              "Resource (Some re_digits)" re_digits "[]" "[]" "[]"]
        replace_first_or_global
          [of "Binary ''ab''" "''ab''" "Binary ''x''" "''x''" RE2_scenarios "[]"
              "Resource (Some re_digits)" re_digits "[]" "[a_global]" "[]"]
  by (simp add: pattern_object_def RE2_scenarios_def re_digits_def rres_def)

section \<open>Capture resolver\<close>

text \<open>
  Claim C7 fails on the code. In \<open>re2_match_ret_vlist\<close> the value of an
  integer reference beyond the last slot is pushed without the test for
  \<open>enif_alloc_binary\<close> that every other call of \<open>mres\<close> is followed
  by. With the pattern \<open>(\d+)-(\d+)\<close>, the subject \<open>12-34\<close>, the
  references \<open>[1, 3]\<close> in binary shape and a second allocation that fails,
  the call returns a match whose sequence holds the first capture and the atom
  \<open>enif_alloc_binary\<close>, not the allocation error.
\<close>

theorem placeholder_allocation_unchecked:
  "re2_match_impl RE2_scenarios [True, False]
      [Binary ''12-34'', Resource (Some re_digits),
       make_list [Tuple [a_capture, make_list [Integer 1, Integer 3]]]]
     = Return (Tuple [a_match, make_list [Binary ''12'', a_err_enif_alloc_binary]])"
  by (simp add: re2_match_impl_def parse_match_options_def parse_match_capture_options_def
      enif_is_identical_def atom_defs matchoptions_init_def re_digits_def
      number_of_capturing_groups_def re2_match_ret_vlist_def re2_match_ret_vlist_body_def
      slot_def mres_def sp_empty_def)


lemma alloc_all_ok: "\<forall>b\<in>set al. b \<Longrightarrow> alloc al = (True, tl al)"
  by (cases al) auto

lemma tl_all_ok: "\<forall>b\<in>set al. b \<Longrightarrow> \<forall>b\<in>set (tl al). b"
  by (cases al) auto

lemma mres_null_all_ok:
  assumes "\<forall>b\<in>set al. b"
  shows "\<exists>al'. mres al s NullPiece ct = (unmatched ct, al') \<and> (\<forall>b\<in>set al'. b)"
  using assms alloc_all_ok [OF assms] tl_all_ok [OF assms]
  by (cases ct) (auto simp: mres_def unmatched_def sp_empty_def)

lemma mres_all_ok:
  assumes "\<forall>b\<in>set al. b" and "mres al s p ct = (res, al')"
  shows "(\<forall>b\<in>set al'. b) \<and> res \<noteq> a_err_enif_alloc_binary"
  using assms alloc_all_ok [OF assms(1)] tl_all_ok [OF assms(1)]
  by (cases ct) (auto simp: mres_def a_err_enif_alloc_binary_def split: if_splits)

lemma unmatched_not_alloc_error: "unmatched ct \<noteq> a_err_enif_alloc_binary"
  by (cases ct) (simp_all add: unmatched_def a_err_enif_alloc_binary_def)

lemma latin1_chars_length:
  "latin1_chars t = Some cs \<Longrightarrow> enif_get_list_length t = Some (length cs)"
  by (induction t arbitrary: cs rule: latin1_chars.induct) (auto split: if_splits)

lemma body_unfound:
  assumes ok: "\<forall>b\<in>set al. b" and u: "unfound_reference re n VH"
  shows "\<exists>al'. re2_match_ret_vlist_body re s opts grp n VH al = Inr (unmatched (mo_ct opts), al')
           \<and> (\<forall>b\<in>set al'. b)"
proof (cases VH)
  case (Integer nid)
  with u have "0 < nid" "n \<le> nid" "nid \<le> 2147483647"
    by (simp_all add: unfound_reference_def)
  with Integer mres_null_all_ok [OF ok, of s "mo_ct opts"] show ?thesis
    by (auto simp: re2_match_ret_vlist_body_def)
next
  case (Atom a)
  with u have nf: "re_NamedCapturingGroups re (c_str a) = None"
    by (simp add: unfound_reference_def)
  note a1 = alloc_all_ok [OF ok] and ok1 = tl_all_ok [OF ok]
  from mres_null_all_ok [OF ok1, of s "mo_ct opts"] Atom nf a1 show ?thesis
    by (auto simp: re2_match_ret_vlist_body_def alloc_atom_def enif_is_identical_def
        unmatched_not_alloc_error)
next
  case ENil
  with u have nf: "re_NamedCapturingGroups re (c_str []) = None"
    by (simp add: unfound_reference_def)
  note a1 = alloc_all_ok [OF ok] and ok1 = tl_all_ok [OF ok]
  from mres_null_all_ok [OF ok1, of s "mo_ct opts"] ENil nf a1 show ?thesis
    by (auto simp: re2_match_ret_vlist_body_def alloc_str_def enif_get_string_def
        enif_is_identical_def unmatched_not_alloc_error)
next
  case (ECons h t)
  with u obtain cs where cs: "latin1_chars VH = Some cs"
    and nf: "re_NamedCapturingGroups re (c_str cs) = None"
    by (auto simp: unfound_reference_def split: option.splits)
  from latin1_chars_length [OF cs] have len: "enif_get_list_length VH = Some (length cs)" .
  note a1 = alloc_all_ok [OF ok] and ok1 = tl_all_ok [OF ok]
  have nint: "enif_get_int VH = None" and natom: "\<not> enif_is_atom VH"
    using ECons by simp_all
  from mres_null_all_ok [OF ok1, of s "mo_ct opts"] nf a1 cs len nint natom show ?thesis
    by (auto simp: re2_match_ret_vlist_body_def alloc_str_def enif_get_string_def
        enif_is_identical_def unmatched_not_alloc_error)
qed (use u in \<open>simp_all add: unfound_reference_def\<close>)

lemma body_all_ok:
  assumes ok: "\<forall>b\<in>set al. b"
    and b: "re2_match_ret_vlist_body re s opts grp n VH al = Inr (res, al')"
  shows "\<forall>b\<in>set al'. b"
proof -
  note a1 = alloc_all_ok [OF ok] and ok1 = tl_all_ok [OF ok]
  have m: "\<And>p v a. mres al s p (mo_ct opts) = (v, a) \<Longrightarrow> \<forall>b\<in>set a. b"
    using mres_all_ok [OF ok] by blast
  have m1: "\<And>p v a. mres (tl al) s p (mo_ct opts) = (v, a) \<Longrightarrow> \<forall>b\<in>set a. b"
    using mres_all_ok [OF ok1] by blast
  from b show ?thesis
    unfolding re2_match_ret_vlist_body_def Let_def alloc_atom_def alloc_str_def
    by (auto simp: a1 split: if_splits option.splits prod.splits dest: m m1)
qed

lemma body_Inl_no_match:
  "re2_match_ret_vlist_body re s opts grp n VH al = Inl out \<Longrightarrow>
   out \<noteq> Return (Tuple [a_match, L])"
  unfolding re2_match_ret_vlist_body_def Let_def
  by (auto simp: error_def a_error_def a_match_def
      split: if_splits option.splits prod.splits)

lemma vlist_loop_all_unfound:
  "\<forall>b\<in>set al. b \<Longrightarrow> \<forall>r\<in>set rs. unfound_reference re n r \<Longrightarrow>
   re2_match_ret_vlist_loop re s opts grp n (make_list rs) vec al =
     Return (Tuple [a_match, make_list (vec @ replicate (length rs) (unmatched (mo_ct opts)))])"
proof (induction rs arbitrary: vec al)
  case Nil
  then show ?case by simp
next
  case (Cons r rs)
  from Cons.prems have "unfound_reference re n r" by simp
  from body_unfound [OF Cons.prems(1) this, of s opts grp]
  obtain al' where b: "re2_match_ret_vlist_body re s opts grp n r al
      = Inr (unmatched (mo_ct opts), al')" and ok': "\<forall>b\<in>set al'. b"
    by blast
  from Cons.prems have "\<forall>r\<in>set rs. unfound_reference re n r" by simp
  from Cons.IH [OF ok' this, of "vec @ [unmatched (mo_ct opts)]"] b show ?case
    by (simp add: replicate_app_Cons_same)
qed

lemma vlist_loop_positions:
  "\<forall>b\<in>set al. b \<Longrightarrow>
   re2_match_ret_vlist_loop re s opts grp n (make_list rs) vec al = Return (Tuple [a_match, L]) \<Longrightarrow>
   \<exists>vs. L = make_list (vec @ vs) \<and> length vs = length rs \<and>
     (\<forall>i<length rs. unfound_reference re n (rs ! i) \<longrightarrow> vs ! i = unmatched (mo_ct opts))"
proof (induction rs arbitrary: vec al)
  case Nil
  then show ?case by simp
next
  case (Cons r rs)
  show ?case
  proof (cases "re2_match_ret_vlist_body re s opts grp n r al")
    case (Inl out)
    with Cons.prems(2) body_Inl_no_match [OF Inl, of L] show ?thesis by simp
  next
    case (Inr p)
    obtain res al' where p: "p = (res, al')" by (cases p)
    with Inr have b: "re2_match_ret_vlist_body re s opts grp n r al = Inr (res, al')" by simp
    from body_all_ok [OF Cons.prems(1) b] have ok': "\<forall>b\<in>set al'. b" .
    from Cons.prems(2) b have
      "re2_match_ret_vlist_loop re s opts grp n (make_list rs) (vec @ [res]) al'
         = Return (Tuple [a_match, L])" by simp
    from Cons.IH [OF ok' this] obtain vs where
      L: "L = make_list ((vec @ [res]) @ vs)" and len: "length vs = length rs"
      and pos: "\<forall>i<length rs. unfound_reference re n (rs ! i)
                  \<longrightarrow> vs ! i = unmatched (mo_ct opts)"
      by blast
    have r0: "unfound_reference re n r \<Longrightarrow> res = unmatched (mo_ct opts)"
      using body_unfound [OF Cons.prems(1), of re n r s opts grp] b by auto
    have "\<forall>i<length (r # rs). unfound_reference re n ((r # rs) ! i)
            \<longrightarrow> (res # vs) ! i = unmatched (mo_ct opts)"
    proof (intro allI impI)
      fix i assume "i < length (r # rs)" and "unfound_reference re n ((r # rs) ! i)"
      then show "(res # vs) ! i = unmatched (mo_ct opts)"
        using r0 pos by (cases i) auto
    qed
    with L len show ?thesis
      by (intro exI [of _ "res # vs"]) simp
  qed
qed


lemma pattern_object_all_ok:
  assumes "pattern_object RE2_new al opts P = Some (re, al1)" and "\<forall>b\<in>set al. b"
  shows "\<forall>b\<in>set al1. b"
  using assms(1)
proof (cases rule: pattern_object_cases)
  case handle
  with assms(2) show ?thesis by simp
next
  case (inline p)
  with alloc_all_ok [OF assms(2)] tl_all_ok [OF assms(2)] show ?thesis by simp
qed

lemma capture_list_options:
  "rs \<noteq> [] \<Longrightarrow>
   parse_match_options (make_list [Tuple [a_capture, make_list rs, sh]]) matchoptions_init =
     Some (matchoptions_init\<lparr>mo_vlist := make_list rs, mo_vs := VS_VLIST,
             mo_ct := (if sh = a_index then CT_INDEX else CT_BINARY)\<rparr>)"
  by (cases rs)
     (auto simp: parse_match_options_def parse_match_capture_options_def enif_is_identical_def
        atom_defs matchoptions_init_def)

lemma match_impl_capture_list:
  assumes "enif_inspect_iolist_as_binary S = Some s"
    and "pattern_object RE2_new al (Options_init\<lparr>opt_log_errors := False\<rparr>) P = Some (re, al1)"
    and "re_ok re"
    and "re_Match re s 0 (re_NumberOfCapturingGroups re + 1) = Some grp"
    and "rs \<noteq> []"
  shows "re2_match_impl RE2_new al [S, P, make_list [Tuple [a_capture, make_list rs, sh]]] =
     re2_match_ret_vlist_loop re s
       (matchoptions_init\<lparr>mo_vlist := make_list rs, mo_vs := VS_VLIST,
             mo_ct := (if sh = a_index then CT_INDEX else CT_BINARY)\<rparr>)
       grp (re_NumberOfCapturingGroups re + 1) (make_list rs) [] al1"
  using assms(2)
proof (cases rule: pattern_object_cases)
  case handle
  with assms(1,3,4) show ?thesis
    by (simp add: re2_match_impl_def capture_list_options [OF assms(5)]
        number_of_capturing_groups_def re2_match_ret_vlist_def Let_def
        del: make_list.simps)
      (simp add: matchoptions_init_def re2_match_ret_vlist_def)
next
  case (inline p)
  with assms(1,3,4) show ?thesis
    by (simp add: re2_match_impl_def capture_list_options [OF assms(5)]
        number_of_capturing_groups_def re2_match_ret_vlist_def Let_def
        del: make_list.simps)
      (simp add: matchoptions_init_def re2_match_ret_vlist_def)
qed

text \<open>
  What \<open>re2_match_ret_vlist\<close> does for the references it resolves as the
  comments of the source have it (an empty piece for an unfound value id), in a
  call with a valid pattern object and a match, when no allocation fails: if
  every reference is unfound (a positive integer not below the number of slots,
  or a name that the engine's table does not hold) the call returns the match
  with the unmatched value of the shape at every position; and whenever the call
  returns a match, its sequence has one value for each reference, in the order
  of the references, and the unmatched value at the position of each unfound
  reference.
\<close>

lemma unfound_reference_placeholder:
  assumes "\<forall>b\<in>set al. b"
    and "enif_inspect_iolist_as_binary S = Some s"
    and "pattern_object RE2_new al (Options_init\<lparr>opt_log_errors := False\<rparr>) P = Some (re, al1)"
    and "re_ok re"
    and "re_Match re s 0 (re_NumberOfCapturingGroups re + 1) = Some grp"
    and "rs \<noteq> []"
  shows
  "((\<forall>r\<in>set rs. unfound_reference re (re_NumberOfCapturingGroups re + 1) r) \<longrightarrow>
      re2_match_impl RE2_new al [S, P, make_list [Tuple [a_capture, make_list rs, sh]]] =
        Return (Tuple [a_match, make_list (replicate (length rs)
                  (unmatched (if sh = a_index then CT_INDEX else CT_BINARY)))])) \<and>
   (\<forall>L. re2_match_impl RE2_new al [S, P, make_list [Tuple [a_capture, make_list rs, sh]]] =
           Return (Tuple [a_match, L]) \<longrightarrow>
      (\<exists>vs. L = make_list vs \<and> length vs = length rs \<and>
         (\<forall>i<length rs. unfound_reference re (re_NumberOfCapturingGroups re + 1) (rs ! i) \<longrightarrow>
            vs ! i = unmatched (if sh = a_index then CT_INDEX else CT_BINARY))))"
proof -
  note ok1 = pattern_object_all_ok [OF assms(3) assms(1)]
  note eq = match_impl_capture_list [OF assms(2-6), of sh]
  let ?opts = "matchoptions_init\<lparr>mo_vlist := make_list rs, mo_vs := VS_VLIST,
             mo_ct := (if sh = a_index then CT_INDEX else CT_BINARY)\<rparr>"
  have ct: "mo_ct ?opts = (if sh = a_index then CT_INDEX else CT_BINARY)" by simp
  have a: "re2_match_impl RE2_new al [S, P, make_list [Tuple [a_capture, make_list rs, sh]]] =
        Return (Tuple [a_match, make_list (replicate (length rs)
                  (unmatched (if sh = a_index then CT_INDEX else CT_BINARY)))])"
    if "\<forall>r\<in>set rs. unfound_reference re (re_NumberOfCapturingGroups re + 1) r"
    using vlist_loop_all_unfound [OF ok1 that, of s ?opts grp "[]"] eq ct by simp
  have b: "\<exists>vs. L = make_list vs \<and> length vs = length rs \<and>
         (\<forall>i<length rs. unfound_reference re (re_NumberOfCapturingGroups re + 1) (rs ! i) \<longrightarrow>
            vs ! i = unmatched (if sh = a_index then CT_INDEX else CT_BINARY))"
    if "re2_match_impl RE2_new al [S, P, make_list [Tuple [a_capture, make_list rs, sh]]] =
           Return (Tuple [a_match, L])" for L
    using vlist_loop_positions [OF ok1, of re s ?opts grp
             "re_NumberOfCapturingGroups re + 1" rs "[]" L] that eq ct
    by simp
  from a b show ?thesis by blast
qed

text \<open>
  Claim C3 fails on the code at the integer 0 and at a negative integer. The test
  \<open>nid > 0\<close> keeps them out of the branch for integers, and the branch for
  strings takes every term that is no atom: \<open>alloc_str\<close> returns
  \<open>nullptr\<close> for a term that is no list, which the caller reads as a failed
  allocation, and the call returns the error \<open>enif_alloc\<close> although every
  allocation succeeds. The reference 3, beyond the last slot, gets the unmatched
  value in the same calls, as the claim has it for 0.
\<close>

theorem reference_zero_fails:
  "re2_match_impl RE2_scenarios []
      [Binary ''12-34'', Resource (Some re_digits),
       make_list [Tuple [a_capture, make_list [Integer 0]]]]
     = Return (error a_err_enif_alloc) \<and>
   re2_match_impl RE2_scenarios []
      [Binary ''12-34'', Resource (Some re_digits),
       make_list [Tuple [a_capture, make_list [Integer 1, Integer (- 1)], a_index]]]
     = Return (error a_err_enif_alloc) \<and>
   re2_match_impl RE2_scenarios []
      [Binary ''12-34'', Resource (Some re_digits),
       make_list [Tuple [a_capture, make_list [Integer 3]]]]
     = Return (Tuple [a_match, make_list [Binary []]]) \<and>
   re2_match_impl RE2_scenarios []
      [Binary ''12-34'', Resource (Some re_digits),
       make_list [Tuple [a_capture, make_list [Integer 1, Integer 3], a_index]]]
     = Return (Tuple [a_match, make_list
         [Tuple [Integer 0, Integer 2], Tuple [Integer (- 1), Integer 0]]])"
  by (simp add: re2_match_impl_def parse_match_options_def parse_match_capture_options_def
      enif_is_identical_def atom_defs matchoptions_init_def re_digits_def
      number_of_capturing_groups_def re2_match_ret_vlist_def re2_match_ret_vlist_body_def
      slot_def mres_def sp_empty_def alloc_str_def error_def c_int_def)

section \<open>Matcher: first, all, all\_but\_first\<close>

declare re2_match_impl_loop.simps [simp del]











lemma impl_loop_Inl:
  "re2_match_impl_loop arr_ok s ct grp n i arr al = Inl out \<Longrightarrow>
   out = Fault \<or> out = Return (error a_err_enif_alloc_binary)"
proof (induction arr_ok s ct grp n i arr al rule: re2_match_impl_loop.induct)
  case (1 arr_ok s ct grp n i arr al)
  from "1.prems" show ?case
    unfolding re2_match_impl_loop.simps [of arr_ok s ct grp n i arr al]
    by (auto split: if_splits option.splits prod.splits dest: "1.IH")
qed











section \<open>Capture planner\<close>

lemma vlist_body_Match_update:
  "re2_match_ret_vlist_body (re\<lparr>re_Match := m\<rparr>) s opts grp n VH al =
   re2_match_ret_vlist_body re s opts grp n VH al"
proof -
  have h: "re_NamedCapturingGroups (re\<lparr>re_Match := m\<rparr>) = re_NamedCapturingGroups re"
    by simp
  show ?thesis
    unfolding re2_match_ret_vlist_body_def h by (rule refl)
qed

lemma vlist_loop_Match_update:
  "re2_match_ret_vlist_loop (re\<lparr>re_Match := m\<rparr>) s opts grp n VL vec al =
   re2_match_ret_vlist_loop re s opts grp n VL vec al"
  by (induction re s opts grp n VL vec al rule: re2_match_ret_vlist_loop.induct)
     (simp_all add: vlist_body_Match_update split: sum.splits)

lemma match_impl_consults_requested_slots:
  "re2_match_impl RE2_new al
     [S, Resource (Some (re\<lparr>re_Match := (\<lambda>text startpos k.
         if k = (case parse_match_options MO matchoptions_init of
                   Some opts \<Rightarrow>
                     number_of_capturing_groups (re_NumberOfCapturingGroups re + 1) (mo_vs opts)
                 | None \<Rightarrow> 0)
         then re_Match re text startpos k else other text startpos k)\<rparr>)), MO]
   = re2_match_impl RE2_new al [S, Resource (Some re), MO]"
  by (simp add: re2_match_impl_def re2_match_ret_vlist_def vlist_loop_Match_update Let_def
      split: option.splits)


lemma match_impl_inline_consults_requested_slots:
  "re2_match_impl
     (\<lambda>p opts. (RE2_new p opts)\<lparr>re_Match := (\<lambda>text startpos k.
         if k = (case parse_match_options MO matchoptions_init of
                   Some mopts \<Rightarrow>
                     number_of_capturing_groups
                       (re_NumberOfCapturingGroups (RE2_new p opts) + 1) (mo_vs mopts)
                 | None \<Rightarrow> 0)
         then re_Match (RE2_new p opts) text startpos k else other text startpos k)\<rparr>)
     al [S, P, MO]
   = re2_match_impl RE2_new al [S, P, MO]"
  by (simp add: re2_match_impl_def re2_match_ret_vlist_def vlist_loop_Match_update Let_def
      split: option.splits prod.splits bool.splits)

lemma body_Inl_cases:
  "re2_match_ret_vlist_body re s opts grp n VH al = Inl out \<Longrightarrow>
   out = Fault \<or> (\<exists>e. out = Return (error e))"
  unfolding re2_match_ret_vlist_body_def Let_def
  by (auto split: if_splits option.splits prod.splits)

lemma vlist_loop_not_nomatch:
  "re2_match_ret_vlist_loop re s opts grp n VL vec al \<noteq> Return a_nomatch"
proof (induction re s opts grp n VL vec al rule: re2_match_ret_vlist_loop.induct)
  case (1 re s opts grp n VH VT vec al)
  show ?case
  proof (cases "re2_match_ret_vlist_body re s opts grp n VH al")
    case (Inl out)
    with body_Inl_cases [OF Inl] show ?thesis
      by (auto simp: error_def a_nomatch_def)
  next
    case (Inr p)
    obtain res al' where "p = (res, al')" by (cases p)
    with Inr "1.IH" show ?thesis by simp
  qed
qed (simp_all add: a_nomatch_def)

lemma impl_loop_not_nomatch:
  "re2_match_impl_loop arr_ok s ct grp n i arr al \<noteq> Inl (Return a_nomatch)"
  using impl_loop_Inl [of arr_ok s ct grp n i arr al "Return a_nomatch"]
  by (auto simp: error_def a_nomatch_def)

lemma match_impl_nomatch_iff:
  assumes s: "enif_inspect_iolist_as_binary S = Some s"
    and po: "parse_match_options MO matchoptions_init = Some opts"
    and pobj: "pattern_object RE2_new al (match_re2opts opts) P = Some (re, al1)"
    and ok: "re_ok re"
    and nc: "mo_caseless opts \<longrightarrow> enif_get_resource P = None"
  shows "(re2_match_impl RE2_new al [S, P, MO] = Return a_nomatch) =
     (re_Match re s (mo_offset opts)
        (number_of_capturing_groups (re_NumberOfCapturingGroups re + 1) (mo_vs opts)) = None)"
proof (cases "re_Match re s (mo_offset opts)
        (number_of_capturing_groups (re_NumberOfCapturingGroups re + 1) (mo_vs opts))")
  case None
  from pobj have "re2_match_impl RE2_new al [S, P, MO] = Return a_nomatch"
  proof (cases rule: pattern_object_cases)
    case handle
    with s po ok nc None show ?thesis
      by (simp add: re2_match_impl_def Let_def)
  next
    case (inline p)
    with s po ok None show ?thesis
      by (cases "mo_caseless opts") (simp_all add: re2_match_impl_def Let_def match_re2opts_def)
  qed
  with None show ?thesis by simp
next
  case (Some grp)
  note nn = impl_loop_not_nomatch [unfolded a_nomatch_def]
    vlist_loop_not_nomatch [unfolded a_nomatch_def]
  from pobj have "re2_match_impl RE2_new al [S, P, MO] \<noteq> Return a_nomatch"
  proof (cases rule: pattern_object_cases)
    case handle
    with s po ok nc Some show ?thesis
      by (cases "mo_vs opts")
         (auto simp: re2_match_impl_def Let_def re2_match_ret_vlist_def nn a_match_def
            a_nomatch_def error_def
            split: option.splits prod.splits sum.splits)
  next
    case (inline p)
    with s po ok Some show ?thesis
      by (cases "mo_vs opts"; cases "mo_caseless opts")
         (auto simp: re2_match_impl_def Let_def re2_match_ret_vlist_def nn a_match_def
            a_nomatch_def error_def match_re2opts_def
            split: option.splits prod.splits sum.splits)
  qed
  with Some show ?thesis by simp
qed


lemma match_impl2_nomatch_iff:
  assumes s: "enif_inspect_iolist_as_binary S = Some s"
    and pobj: "pattern_object RE2_new al (Options_init\<lparr>opt_log_errors := False\<rparr>) P
                 = Some (re, al1)"
    and ok: "re_ok re"
  shows "(re2_match_impl RE2_new al [S, P] = Return a_nomatch) =
     (re_Match re s 0 (re_NumberOfCapturingGroups re + 1) = None)"
proof (cases "re_Match re s 0 (re_NumberOfCapturingGroups re + 1)")
  case None
  from pobj have "re2_match_impl RE2_new al [S, P] = Return a_nomatch"
  proof (cases rule: pattern_object_cases)
    case handle
    with s ok None show ?thesis
      by (simp add: re2_match_impl_def Let_def matchoptions_init_def
          number_of_capturing_groups_def)
  next
    case (inline p)
    with s ok None show ?thesis
      by (simp add: re2_match_impl_def Let_def matchoptions_init_def
          number_of_capturing_groups_def)
  qed
  with None show ?thesis by simp
next
  case (Some grp)
  note nn = impl_loop_not_nomatch [unfolded a_nomatch_def]
  from pobj have "re2_match_impl RE2_new al [S, P] \<noteq> Return a_nomatch"
  proof (cases rule: pattern_object_cases)
    case handle
    with s ok Some show ?thesis
      by (auto simp: re2_match_impl_def Let_def matchoptions_init_def
            number_of_capturing_groups_def nn a_match_def a_nomatch_def
            split: option.splits prod.splits sum.splits)
  next
    case (inline p)
    with s ok Some show ?thesis
      by (auto simp: re2_match_impl_def Let_def matchoptions_init_def
            number_of_capturing_groups_def nn a_match_def a_nomatch_def
            split: option.splits prod.splits sum.splits)
  qed
  with Some show ?thesis by simp
qed

text \<open>
  Claim C2. With \<open>G\<close> the engine's number of capturing groups,
  \<open>re2_match_impl\<close> requests \<open>N\<close> slots from the engine at match time,
  where \<open>N\<close> is 0 for \<open>none\<close>, 1 for \<open>first\<close> and \<open>G + 1\<close> for
  \<open>all\<close>, \<open>all_but_first\<close> and a reference list: once the arguments
  are well-formed and the pattern object is valid, the call returns
  \<open>nomatch\<close> exactly when the engine, asked at the offset of the options for
  \<open>N\<close> slots, reports no match (without options: for \<open>G + 1\<close> slots at
  offset 0). The engine is asked for that number of slots and no other: the call
  stays the same when the engine's answers for every other number of slots are
  replaced by anything else. \<open>number_of_capturing_groups\<close>, called with
  \<open>G + 1\<close>, gives these numbers.
\<close>

theorem requested_capture_slots:
  "number_of_capturing_groups (re_NumberOfCapturingGroups re + 1) VS_NONE = 0 \<and>
   number_of_capturing_groups (re_NumberOfCapturingGroups re + 1) VS_FIRST = 1 \<and>
   number_of_capturing_groups (re_NumberOfCapturingGroups re + 1) VS_ALL
     = re_NumberOfCapturingGroups re + 1 \<and>
   number_of_capturing_groups (re_NumberOfCapturingGroups re + 1) VS_ALL_BUT_FIRST
     = re_NumberOfCapturingGroups re + 1 \<and>
   number_of_capturing_groups (re_NumberOfCapturingGroups re + 1) VS_VLIST
     = re_NumberOfCapturingGroups re + 1 \<and>
   re2_match_impl RE2_new al
     [S, Resource (Some (re\<lparr>re_Match := (\<lambda>text startpos k.
         if k = (case parse_match_options MO matchoptions_init of
                   Some opts \<Rightarrow>
                     number_of_capturing_groups (re_NumberOfCapturingGroups re + 1) (mo_vs opts)
                 | None \<Rightarrow> 0)
         then re_Match re text startpos k else other text startpos k)\<rparr>)), MO]
   = re2_match_impl RE2_new al [S, Resource (Some re), MO] \<and>
   re2_match_impl
     (\<lambda>p opts. (RE2_new p opts)\<lparr>re_Match := (\<lambda>text startpos k.
         if k = (case parse_match_options MO matchoptions_init of
                   Some mopts \<Rightarrow>
                     number_of_capturing_groups
                       (re_NumberOfCapturingGroups (RE2_new p opts) + 1) (mo_vs mopts)
                 | None \<Rightarrow> 0)
         then re_Match (RE2_new p opts) text startpos k else other text startpos k)\<rparr>)
     al [S, P, MO]
   = re2_match_impl RE2_new al [S, P, MO] \<and>
   (enif_inspect_iolist_as_binary S = Some s \<and>
    parse_match_options MO matchoptions_init = Some opts \<and>
    pattern_object RE2_new al (match_re2opts opts) P = Some (re, al1) \<and>
    re_ok re \<and> (mo_caseless opts \<longrightarrow> enif_get_resource P = None) \<longrightarrow>
      (re2_match_impl RE2_new al [S, P, MO] = Return a_nomatch) =
      (re_Match re s (mo_offset opts)
         (case mo_vs opts of
            VS_NONE \<Rightarrow> 0
          | VS_FIRST \<Rightarrow> 1
          | VS_ALL \<Rightarrow> re_NumberOfCapturingGroups re + 1
          | VS_ALL_BUT_FIRST \<Rightarrow> re_NumberOfCapturingGroups re + 1
          | VS_VLIST \<Rightarrow> re_NumberOfCapturingGroups re + 1) = None)) \<and>
   (enif_inspect_iolist_as_binary S = Some s \<and>
    pattern_object RE2_new al (Options_init\<lparr>opt_log_errors := False\<rparr>) P = Some (re, al1) \<and>
    re_ok re \<longrightarrow>
      (re2_match_impl RE2_new al [S, P] = Return a_nomatch) =
      (re_Match re s 0 (re_NumberOfCapturingGroups re + 1) = None))"
proof -
  have eqs: "number_of_capturing_groups (re_NumberOfCapturingGroups re + 1) VS_NONE = 0"
    "number_of_capturing_groups (re_NumberOfCapturingGroups re + 1) VS_FIRST = 1"
    "number_of_capturing_groups (re_NumberOfCapturingGroups re + 1) VS_ALL
       = re_NumberOfCapturingGroups re + 1"
    "number_of_capturing_groups (re_NumberOfCapturingGroups re + 1) VS_ALL_BUT_FIRST
       = re_NumberOfCapturingGroups re + 1"
    "number_of_capturing_groups (re_NumberOfCapturingGroups re + 1) VS_VLIST
       = re_NumberOfCapturingGroups re + 1"
    by (simp_all add: number_of_capturing_groups_def)
  have n: "number_of_capturing_groups (re_NumberOfCapturingGroups re + 1) (mo_vs opts) =
         (case mo_vs opts of
            VS_NONE \<Rightarrow> 0
          | VS_FIRST \<Rightarrow> 1
          | VS_ALL \<Rightarrow> re_NumberOfCapturingGroups re + 1
          | VS_ALL_BUT_FIRST \<Rightarrow> re_NumberOfCapturingGroups re + 1
          | VS_VLIST \<Rightarrow> re_NumberOfCapturingGroups re + 1)"
    by (cases "mo_vs opts") (simp_all add: number_of_capturing_groups_def)
  note h = match_impl_consults_requested_slots [of RE2_new al S re MO other]
  note i = match_impl_inline_consults_requested_slots [of RE2_new MO other al S P]
  note a = match_impl_nomatch_iff [of S s MO opts RE2_new al P re al1, unfolded n]
  note b = match_impl2_nomatch_iff [of S s RE2_new al P re al1]
  from eqs h i a b show ?thesis by blast
qed

theorem requested_capture_slots_witness:
  "re2_match_impl RE2_scenarios []
      [Binary ''ab'', Resource (Some re_digits), make_list [Tuple [a_capture, a_none]]]
     = Return a_nomatch \<and>
   re2_match_impl RE2_scenarios []
      [Binary ''12-34'', Resource (Some re_digits), make_list [Tuple [a_capture, a_none]]]
     = Return a_match \<and>
   re2_match_impl RE2_scenarios [] [Binary ''ab'', Binary ''([0-9]+)-([0-9]+)'']
     = Return a_nomatch \<and>
   re2_match_impl RE2_scenarios [] [Binary ''12-34'', Binary ''([0-9]+)-([0-9]+)'']
     = Return (Tuple [a_match, make_list [Binary ''12-34'', Binary ''12'', Binary ''34'']])"
  using requested_capture_slots
          [where S = "Binary ''ab''" and s = "''ab''"
             and MO = "make_list [Tuple [a_capture, a_none]]"
             and opts = "matchoptions_init\<lparr>mo_vs := VS_NONE\<rparr>"
             and RE2_new = RE2_scenarios and al = "[]" and P = "Resource (Some re_digits)"
             and re = re_digits and ?al1.0 = "[]"]
        requested_capture_slots
          [where S = "Binary ''ab''" and s = "''ab''"
             and MO = "make_list [Tuple [a_capture, a_none]]"
             and opts = "matchoptions_init\<lparr>mo_vs := VS_NONE\<rparr>"
             and RE2_new = RE2_scenarios and al = "[]" and P = "Binary ''([0-9]+)-([0-9]+)''"
             and re = re_digits and ?al1.0 = "[]"]
  by (simp add: parse_match_options_def parse_match_capture_options_def enif_is_identical_def
      atom_defs matchoptions_init_def pattern_object_def match_re2opts_def RE2_scenarios_def
      re_digits_def re2_match_impl_def number_of_capturing_groups_def
      re2_match_impl_loop.simps slot_def mres_def)

end
